theory Spec2Isabelle
  imports Main "HOL-Library.Word"
begin

section \<open>ddpt: the copy engine of ddpt.c\<close>

text \<open>
  The development embeds the functions of \<^verbatim>\<open>ddpt.c\<close> that make up the copy engine
  (the read phase with its continue-on-error fallback, the sparse/sparing/write phase and
  the bookkeeping of \<^verbatim>\<open>do_copy\<close>), the planner (\<^verbatim>\<open>cl_sanity_defaults\<close>,
  \<^verbatim>\<open>count_calculate\<close>), the control skeleton of \<^verbatim>\<open>main\<close> and the error-block
  journal. C \<^verbatim>\<open>int\<close> and \<^verbatim>\<open>int64_t\<close> values are HOL integers; division and remainder
  are C's (truncating). Diagnostics written to stderr are left out; so are the signal gate
  (\<^verbatim>\<open>process_signals\<close>), the cache advice hook (\<^verbatim>\<open>do_fadvise\<close>) and the Windows build.
\<close>

subsection \<open>C arithmetic\<close>

text \<open>C's \<^verbatim>\<open>/\<close> and \<^verbatim>\<open>%\<close> on signed integers truncate towards zero.\<close>

definition cdiv :: "int \<Rightarrow> int \<Rightarrow> int" where
  "cdiv a b = sgn a * sgn b * (\<bar>a\<bar> div \<bar>b\<bar>)"

definition cmod :: "int \<Rightarrow> int \<Rightarrow> int" where
  "cmod a b = sgn a * (\<bar>a\<bar> mod \<bar>b\<bar>)"

text \<open>The value of a C \<^verbatim>\<open>int\<close> expression, wrapped to 32 bits (two's complement).\<close>

definition int32 :: "int \<Rightarrow> int" where
  "int32 x = (x + 2 ^ 31) mod 2 ^ 32 - 2 ^ 31"

subsection \<open>Constants of the headers\<close>

text \<open>
  The file types of \<^verbatim>\<open>ddpt.h\<close> are bit flags that the code combines with \<^verbatim>\<open>|\<close> and tests
  with \<^verbatim>\<open>&\<close>; a file type is modelled as the set of its flags, so that
  \<^verbatim>\<open>FT_PT & t\<close> is \<open>FT_PT \<in> t\<close> and \<^verbatim>\<open>FT_REG == t\<close> is \<open>t = {FT_REG}\<close>.
\<close>

datatype ft = FT_OTHER | FT_PT | FT_REG | FT_DEV_NULL | FT_TAPE | FT_BLOCK | FT_FIFO
  | FT_CHAR | FT_ERROR

text \<open>
  Exit and category codes of \<^verbatim>\<open>sg_lib.h\<close>, the tape marker of \<^verbatim>\<open>ddpt.h\<close> and the
  \<^verbatim>\<open>errno\<close> values of Linux. The headers are not among the sources; no result below
  depends on the numbers chosen, only on the names being distinct.
\<close>

definition SG_LIB_SYNTAX_ERROR :: int where "SG_LIB_SYNTAX_ERROR = 1"
definition SG_LIB_CAT_MEDIUM_HARD :: int where "SG_LIB_CAT_MEDIUM_HARD = 3"
definition SG_LIB_FILE_ERROR :: int where "SG_LIB_FILE_ERROR = 15"
definition SG_LIB_FLOCK_ERR :: int where "SG_LIB_FLOCK_ERR = 90"
definition SG_LIB_CAT_OTHER :: int where "SG_LIB_CAT_OTHER = 99"
definition REASON_TAPE_SHORT_READ :: int where "REASON_TAPE_SHORT_READ = 1024"
definition DEF_BLOCK_SIZE :: int where "DEF_BLOCK_SIZE = 512"

definition EIO :: int where "EIO = 5"
definition ENOMEM :: int where "ENOMEM = 12"
definition ENOSPC :: int where "ENOSPC = 28"
definition EREMOTEIO :: int where "EREMOTEIO = 121"

lemmas code_defs = SG_LIB_SYNTAX_ERROR_def SG_LIB_CAT_MEDIUM_HARD_def SG_LIB_FILE_ERROR_def
  SG_LIB_FLOCK_ERR_def
  SG_LIB_CAT_OTHER_def REASON_TAPE_SHORT_READ_def DEF_BLOCK_SIZE_def
  EIO_def ENOMEM_def ENOSPC_def EREMOTEIO_def

subsection \<open>The state\<close>

type_synonym byte = "8 word"

text \<open>
  What the operating system answers to one call: the return value, \<^verbatim>\<open>errno\<close>, the bytes
  delivered by a read, and the number of times the call was interrupted (\<^verbatim>\<open>EINTR\<close>) and
  reissued by the caller's retry loop before this answer. For a pass-through read,
  \<open>sr_blks\<close> is the number of blocks read; for \<^verbatim>\<open>fstat\<close>, \<open>sr_size\<close> is \<^verbatim>\<open>st_size\<close>;
  for \<^verbatim>\<open>dd_filetype\<close>, \<open>sr_ft\<close> is the file type found.
\<close>

record sysret =
  sr_res :: int
  sr_errno :: int
  sr_data :: "byte list"
  sr_eintr :: nat
  sr_blks :: int
  sr_size :: int
  sr_ft :: "ft set"

datatype event =
    Ev_read_if int
  | Ev_lseek_if int
  | Ev_pt_read_if int
  | Ev_write_of2 int
  | Ev_read_of int
  | Ev_lseek_of int
  | Ev_pt_read_of int
  | Ev_write_of int
  | Ev_pt_write int int
  | Ev_pt_write_same16 int int
  | Ev_fstat_of
  | Ev_ftruncate_of int
  | Ev_fsync_of
  | Ev_alloc
  | Ev_stat_if
  | Ev_open_if
  | Ev_flock_if
  | Ev_stat_of
  | Ev_open_of
  | Ev_flock_of
  | Ev_stat_of2
  | Ev_open_of2
  | Ev_fallocate int
  | Ev_pt_sync_cache
  | Ev_fopen_errblk

text \<open>
  The environment: its answer to a call may depend on the call and on how many calls were
  made before it.
\<close>

type_synonym world = "nat \<Rightarrow> event \<Rightarrow> sysret"

text \<open>
  One record holds the fields of \<^verbatim>\<open>struct opts_t\<close> (\<^verbatim>\<open>op->\<close>), of the two
  \<^verbatim>\<open>struct flags_t\<close> (\<^verbatim>\<open>op->iflagp->x\<close> is \<open>i_x\<close>, \<^verbatim>\<open>op->oflagp->x\<close> is \<open>o_x\<close>) and of
  \<^verbatim>\<open>struct cp_state_t\<close> (\<^verbatim>\<open>csp->\<close>) under their own names, followed by the two work
  buffers, the number of system calls made so far and the log of those calls.
  \<open>errblk_fp\<close> tells whether the stream of the error-block journal is open, and
  \<open>errblk_txt\<close> is the text of the journal file \<^verbatim>\<open>errblk.txt\<close>.
\<close>

record state =
  ibs :: int
  obs :: int
  ibs_pi :: int
  obs_pi :: int
  ibs_hold :: int
  bpt_i :: int
  bpt_given :: int
  obpc :: int
  skip :: int
  seek :: int
  dd_count :: int
  in_type :: "ft set"
  out_type :: "ft set"
  out2_type :: "ft set"
  out2fd :: int
  reading_fifo :: int
  coe_limit :: int
  coe_count :: int
  in_full :: int
  in_partial :: int
  out_full :: int
  out_partial :: int
  out_sparse :: int
  out_sparse_partial :: int
  unrecovered_errs :: int
  highest_unrecovered :: int
  lowest_unrecovered :: int
  trim_errs :: int
  interrupted_retries :: int
  err_to_report :: int
  zeros_buff :: "byte list option"
  if_ptvp :: bool
  of_ptvp :: bool
  inf :: string
  outf :: string
  out2f :: string
  errblk_fp :: bool
  errblk_txt :: string
  i_coe :: int
  i_sparse :: int
  i_self :: int
  i_wsame16 :: int
  i_errblk :: int
  i_pt :: int
  i_flock :: int
  i_norcap :: int
  i_force :: int
  o_pt :: int
  o_flock :: int
  o_norcap :: int
  o_force :: int
  o_prealloc :: int
  o_ssync :: int
  rdprotect :: int
  wrprotect :: int
  rdprot_typ :: int
  wrprot_typ :: int
  rdp_i_exp :: int
  wrp_i_exp :: int
  o_sparse :: int
  o_sparing :: int
  o_wsame16 :: int
  o_strunc :: int
  o_nowrite :: int
  o_pad :: int
  o_nopad :: int
  o_ignoreew :: int
  o_resume :: int
  o_append :: int
  o_trunc :: int
  o_self :: int
  o_fdatasync :: int
  o_fsync :: int
  icbpt :: int
  ocbpt :: int
  bytes_read :: int
  bytes_of :: int
  bytes_of2 :: int
  leave_after_write :: int
  leave_reason :: int
  if_filepos :: int
  of_filepos :: int
  partial_write_bytes :: int
  wrk :: "byte list"
  wrk2 :: "byte list"
  io :: nat
  trace :: "event list"

subsection \<open>Buffers and system calls\<close>

text \<open>Storing bytes at an offset of a buffer; \<^verbatim>\<open>memset(p + pos, 0, n)\<close>; \<^verbatim>\<open>0 == memcmp(a, b, n)\<close>.\<close>

definition buf_put :: "byte list \<Rightarrow> int \<Rightarrow> byte list \<Rightarrow> byte list" where
  "buf_put buf pos d =
     take (nat pos) (buf @ replicate (nat pos) 0) @ d @ drop (nat pos + length d) buf"

definition memset0 :: "byte list \<Rightarrow> int \<Rightarrow> int \<Rightarrow> byte list" where
  "memset0 buf pos n = buf_put buf pos (replicate (nat n) 0)"

definition memcmp0 :: "byte list \<Rightarrow> byte list \<Rightarrow> int \<Rightarrow> bool" where
  "memcmp0 a b n = (take (nat n) a = take (nat n) b)"

text \<open>A call that is not retried, and a call inside the \<^verbatim>\<open>EINTR\<close> retry loop.\<close>

definition sys_call :: "world \<Rightarrow> event \<Rightarrow> state \<Rightarrow> sysret \<times> state" where
  "sys_call w e s = (w (io s) e, s\<lparr>io := Suc (io s), trace := trace s @ [e]\<rparr>)"

definition sys_retry :: "world \<Rightarrow> event \<Rightarrow> state \<Rightarrow> sysret \<times> state" where
  "sys_retry w e s =
     (case sys_call w e s of (r, s1) \<Rightarrow>
        (r, s1\<lparr>interrupted_retries := interrupted_retries s1 + int (sr_eintr r)\<rparr>))"

text \<open>\<^verbatim>\<open>read\<close> and \<^verbatim>\<open>write\<close> return \<open>-1\<close> on error and never more than the count asked for.\<close>

definition rw_res :: "sysret \<Rightarrow> int \<Rightarrow> int" where
  "rw_res r n = (if sr_res r < 0 then - 1 else min (sr_res r) n)"

definition rd_data :: "sysret \<Rightarrow> int \<Rightarrow> byte list" where
  "rd_data r n = take (nat (rw_res r n)) (sr_data r @ replicate (nat (rw_res r n)) 0)"

text \<open>\<^verbatim>\<open>read(op->infd, wrkPos + pos, n)\<close> in its retry loop: the result, \<^verbatim>\<open>errno\<close>, the new state.\<close>

definition read_if :: "world \<Rightarrow> int \<Rightarrow> int \<Rightarrow> state \<Rightarrow> int \<times> int \<times> state" where
  "read_if w pos n s =
     (case sys_retry w (Ev_read_if n) s of (r, s1) \<Rightarrow>
        (rw_res r n, sr_errno r, s1\<lparr>wrk := buf_put (wrk s1) pos (rd_data r n)\<rparr>))"

text \<open>\<^verbatim>\<open>lseek(op->infd, offset, SEEK_SET)\<close> when the offset differs from \<^verbatim>\<open>csp->if_filepos\<close>.\<close>

definition seek_if :: "world \<Rightarrow> int \<Rightarrow> state \<Rightarrow> int \<times> state" where
  "seek_if w offset s =
     (if offset \<noteq> if_filepos s then
        (case sys_call w (Ev_lseek_if offset) s of (r, s1) \<Rightarrow>
           if sr_res r < 0 then (SG_LIB_FILE_ERROR, s1)
           else (0, s1\<lparr>if_filepos := offset\<rparr>))
      else (0, s))"

subsection \<open>Reading: continue on error\<close>

definition zero_coe_limit_count :: "state \<Rightarrow> state" where
  "zero_coe_limit_count s = (if coe_limit s > 0 then s\<lparr>coe_count := 0\<rparr> else s)"

text \<open>
  \<^verbatim>\<open>coe_process_eio\<close>. The count \<^verbatim>\<open>op->coe_count\<close> is a C \<^verbatim>\<open>int\<close>; \<^verbatim>\<open>++op->coe_count\<close> wraps
  at \<open>2 ^ 31\<close>.
\<close>

definition coe_process_eio :: "state \<Rightarrow> int \<Rightarrow> int \<times> state" where
  "coe_process_eio s skp =
     (let s1 = (if coe_limit s > 0 then s\<lparr>coe_count := int32 (coe_count s + 1)\<rparr> else s)
      in
      if coe_limit s > 0 \<and> coe_count s1 > coe_limit s1 then (SG_LIB_CAT_MEDIUM_HARD, s1)
      else
        (let s2 = (if highest_unrecovered s1 < 0
                   then s1\<lparr>highest_unrecovered := skp, lowest_unrecovered := skp\<rparr>
                   else
                     (let s1a = (if skp < lowest_unrecovered s1
                                 then s1\<lparr>lowest_unrecovered := skp\<rparr> else s1)
                      in if skp > highest_unrecovered s1a
                         then s1a\<lparr>highest_unrecovered := skp\<rparr> else s1a))
         in (0, s2\<lparr>unrecovered_errs := unrecovered_errs s2 + 1,
                   in_partial := in_partial s2 + 1,
                   in_full := in_full s2 - 1\<rparr>)))"

text \<open>The code after the label \<^verbatim>\<open>short_read\<close> of \<^verbatim>\<open>coe_cp_read_block_reg\<close>.\<close>

definition coe_short_read :: "int \<Rightarrow> int \<Rightarrow> int \<Rightarrow> state \<Rightarrow> int \<times> state" where
  "coe_short_read ibs' k res s =
     (let total_read = ibs' * k + (if res > 0 then res else 0);
          s1 = s\<lparr>icbpt := cdiv total_read ibs'\<rparr>;
          s2 = (if cmod total_read ibs' > 0
                then s1\<lparr>icbpt := icbpt s1 + 1, in_partial := in_partial s1 + 1\<rparr> else s1);
          s3 = s2\<lparr>ocbpt := cdiv total_read (obs s2),
                  leave_after_write := leave_after_write s2 + 1\<rparr>
      in if leave_reason s3 = 0
         then (0, s3\<lparr>partial_write_bytes := cmod total_read (obs s3)\<rparr>)
         else if cmod total_read (obs s3) > 0 then (0, s3\<lparr>ocbpt := ocbpt s3 + 1\<rparr>)
         else (0, s3))"

text \<open>
  One pass through the body of the single-block loop of \<^verbatim>\<open>coe_cp_read_block_reg\<close>:
  \<open>Inl\<close> is what the function returns when the body leaves the loop, \<open>Inr\<close> the state
  with which the loop goes on.
\<close>

definition coe_step ::
  "world \<Rightarrow> int \<Rightarrow> int \<Rightarrow> int \<Rightarrow> int \<Rightarrow> int \<Rightarrow> state \<Rightarrow> (int \<times> state) + state" where
  "coe_step w ibs' k my_skip pos offset s =
     (case seek_if w offset s of (sk, s1) \<Rightarrow>
        if sk \<noteq> 0 then Inl (sk, s1)
        else
          (case read_if w pos ibs' (s1\<lparr>wrk := memset0 (wrk s1) pos ibs'\<rparr>) of
             (res, err, s2) \<Rightarrow>
               if res = 0 then Inl (coe_short_read ibs' k res (s2\<lparr>leave_reason := 0\<rparr>))
               else if res < 0 then
                 (if err = EIO \<or> err = EREMOTEIO then
                    (case coe_process_eio s2 my_skip of (res2, s3) \<Rightarrow>
                       if res2 \<noteq> 0 then Inl (res2, s3)
                       else Inr (s3\<lparr>in_full := in_full s3 + 1,
                                    bytes_read := bytes_read s3 + ibs'\<rparr>))
                  else Inl (coe_short_read ibs' k res
                              (s2\<lparr>leave_reason := SG_LIB_CAT_OTHER\<rparr>)))
               else if res < ibs' then
                 Inl (coe_short_read ibs' k res (s2\<lparr>leave_reason := 0\<rparr>))
               else
                 (let s3 = zero_coe_limit_count s2;
                      s4 = s3\<lparr>if_filepos := if_filepos s3 + ibs'\<rparr>
                  in Inr (s4\<lparr>in_full := in_full s4 + 1,
                               bytes_read := bytes_read s4 + ibs'\<rparr>))))"

lemma seek_if_icbpt: "seek_if w offset s = (sk, s') \<Longrightarrow> icbpt s' = icbpt s"
  by (auto simp: seek_if_def sys_call_def split: if_splits prod.splits)

lemma read_if_icbpt: "read_if w pos n s = (res, err, s') \<Longrightarrow> icbpt s' = icbpt s"
  by (auto simp: read_if_def sys_retry_def sys_call_def split: prod.splits)

lemma coe_process_eio_icbpt: "coe_process_eio s skp = (res, s') \<Longrightarrow> icbpt s' = icbpt s"
  by (auto simp: coe_process_eio_def Let_def split: if_splits)

lemma zero_coe_limit_count_icbpt: "icbpt (zero_coe_limit_count s) = icbpt s"
  by (simp add: zero_coe_limit_count_def)

lemma coe_step_icbpt:
  "coe_step w ibs' k my_skip pos offset s = Inr s' \<Longrightarrow> icbpt s' = icbpt s"
  by (auto simp: coe_step_def Let_def zero_coe_limit_count_icbpt
      split: prod.splits if_splits
      dest!: seek_if_icbpt read_if_icbpt coe_process_eio_icbpt)

function coe_loop ::
  "world \<Rightarrow> int \<Rightarrow> int \<Rightarrow> int \<Rightarrow> int \<Rightarrow> int \<Rightarrow> state \<Rightarrow> int \<times> state" where
  "coe_loop w ibs' k my_skip pos offset s =
     (if k < icbpt s then
        (case coe_step w ibs' k my_skip pos offset s of
           Inl r \<Rightarrow> r
         | Inr s' \<Rightarrow> coe_loop w ibs' (k + 1) (my_skip + 1) (pos + ibs') (offset + ibs') s')
      else (0, s))"
  by pat_completeness auto
termination
  by (relation "measure (\<lambda>(w, ibs', k, my_skip, pos, offset, s). nat (icbpt s - k))")
    (auto dest: coe_step_icbpt)

definition coe_cp_read_block_reg :: "world \<Rightarrow> int \<Rightarrow> state \<Rightarrow> int \<times> state" where
  "coe_cp_read_block_reg w numread_errno s =
     (let ibs' = ibs_pi s in
      if 0 = numread_errno then
        (0, s\<lparr>icbpt := 0, ocbpt := 0, leave_after_write := leave_after_write s + 1,
              leave_reason := 0\<rparr>)
      else if numread_errno < 0 \<and> \<not> (- EIO = numread_errno \<or> - EREMOTEIO = numread_errno)
      then (SG_LIB_CAT_OTHER, s)
      else if numread_errno < 0 \<and> 1 = icbpt s then
        (case coe_process_eio (s\<lparr>wrk := memset0 (wrk s) 0 ibs'\<rparr>) (skip s) of
           (res2, s1) \<Rightarrow>
             if res2 \<noteq> 0 then (res2, s1)
             else (0, s1\<lparr>in_full := in_full s1 + 1, bytes_read := bytes_read s1 + ibs'\<rparr>))
      else
        (let num_read = (if numread_errno < 0 then 0 else cdiv numread_errno ibs' * ibs');
             k = cdiv num_read ibs';
             s1 = (if k > 0 then zero_coe_limit_count (s\<lparr>in_full := in_full s + k\<rparr>) else s);
             s2 = s1\<lparr>bytes_read := num_read\<rparr>;
             my_skip = skip s2 + k
         in coe_loop w ibs' k my_skip num_read (my_skip * ibs') s2))"

subsection \<open>Reading: block device or regular file\<close>

text \<open>The branch \<^verbatim>\<open>else if (res < numbytes)\<close> of \<^verbatim>\<open>cp_read_block_reg\<close>.\<close>

definition cp_read_short :: "world \<Rightarrow> int \<Rightarrow> int \<Rightarrow> state \<Rightarrow> state" where
  "cp_read_short w res numbytes s =
     (let ibs' = ibs_pi s;
          s1 = s\<lparr>icbpt := cdiv res ibs'\<rparr>;
          s2 = (if cmod res ibs' > 0
                then s1\<lparr>icbpt := icbpt s1 + 1, in_partial := in_partial s1 + 1,
                        in_full := in_full s1 - 1\<rparr>
                else s1);
          s3 = s2\<lparr>ocbpt := cdiv res (obs s2), leave_after_write := leave_after_write s2 + 1,
                  leave_reason := 0\<rparr>
      in case (if res \<ge> ibs' \<and> res \<le> numbytes - ibs' then
                 (case read_if w res ibs' s3 of (r2, err, s4) \<Rightarrow>
                    if r2 < 0 then
                      (if err = EIO \<or> err = EREMOTEIO
                       then (r2, s4\<lparr>leave_reason := SG_LIB_CAT_MEDIUM_HARD,
                                    unrecovered_errs := unrecovered_errs s4 + 1\<rparr>)
                       else (r2, s4\<lparr>leave_reason := SG_LIB_CAT_OTHER\<rparr>))
                    else (r2, s4\<lparr>if_filepos := if_filepos s4 + r2\<rparr>))
               else (0, s3)) of
           (res2, s5) \<Rightarrow>
             if 0 = leave_reason s5
             then s5\<lparr>partial_write_bytes := cmod (res + res2) (obs s5)\<rparr>
             else if cmod res (obs s5) > 0 then s5\<lparr>ocbpt := ocbpt s5 + 1\<rparr>
             else s5)"

definition cp_read_block_reg :: "world \<Rightarrow> state \<Rightarrow> int \<times> state" where
  "cp_read_block_reg w s =
     (let offset = skip s * ibs_pi s;
          numbytes = icbpt s * ibs_pi s
      in case seek_if w offset s of (sk, s1) \<Rightarrow>
        if sk \<noteq> 0 then (sk, s1)
        else
          (case read_if w 0 numbytes s1 of (res, err, s2) \<Rightarrow>
             if i_coe s2 \<noteq> 0 \<and> res < numbytes then
               (let res2 = (if res \<ge> 0 then res else - err);
                    s3 = (if res2 > 0 then s2\<lparr>if_filepos := if_filepos s2 + res2\<rparr> else s2)
                in coe_cp_read_block_reg w res2 s3)
             else if res < 0 then
               (if err = EIO \<or> err = EREMOTEIO then (SG_LIB_CAT_MEDIUM_HARD, s2)
                else (SG_LIB_CAT_OTHER, s2))
             else
               (let s3 = (if res < numbytes then cp_read_short w res numbytes s2 else s2)
                in (0, s3\<lparr>if_filepos := if_filepos s3 + res, bytes_read := res,
                          in_full := in_full s3 + icbpt s3\<rparr>))))"

subsection \<open>Reading: pass-through, tape, fifo\<close>

text \<open>
  Modelled from the spec: \<^verbatim>\<open>pt_read\<close>, \<^verbatim>\<open>pt_write\<close> and \<^verbatim>\<open>pt_write_same16\<close> are defined in
  the pass-through source file, which is not among the sources. The spec gives the port as
  \<^verbatim>\<open>read(side, buf, nblocks) -> (blocks_read, status)\<close>, \<^verbatim>\<open>write(buf, nblocks, lba)\<close> and
  \<^verbatim>\<open>write_same(buf, block_size, nblocks, lba)\<close>: a status (0 for success) and, for a
  read, the number of blocks read and their bytes.
\<close>

definition pt_read :: "world \<Rightarrow> int \<Rightarrow> int \<Rightarrow> state \<Rightarrow> int \<times> int \<times> state" where
  "pt_read w in0_out1 blocks s =
     (if in0_out1 = 0 then
        (case sys_call w (Ev_pt_read_if blocks) s of (r, s1) \<Rightarrow>
           (sr_res r, sr_blks r, s1\<lparr>wrk := buf_put (wrk s1) 0 (sr_data r)\<rparr>))
      else
        (case sys_call w (Ev_pt_read_of blocks) s of (r, s1) \<Rightarrow>
           (sr_res r, sr_blks r, s1\<lparr>wrk2 := buf_put (wrk2 s1) 0 (sr_data r)\<rparr>)))"

definition pt_write :: "world \<Rightarrow> int \<Rightarrow> int \<Rightarrow> state \<Rightarrow> int \<times> state" where
  "pt_write w blks lba s = (case sys_call w (Ev_pt_write blks lba) s of (r, s1) \<Rightarrow> (sr_res r, s1))"

definition pt_write_same16 :: "world \<Rightarrow> int \<Rightarrow> int \<Rightarrow> state \<Rightarrow> int \<times> state" where
  "pt_write_same16 w blks lba s =
     (case sys_call w (Ev_pt_write_same16 blks lba) s of (r, s1) \<Rightarrow> (sr_res r, s1))"

text \<open>\<^verbatim>\<open>cp_read_pt\<close>; \<open>pt_short\<close> is its block \<^verbatim>\<open>if (blks_read < csp->icbpt)\<close>.\<close>

definition pt_short :: "int \<Rightarrow> state \<Rightarrow> state" where
  "pt_short blks_read s =
     s\<lparr>leave_after_write := leave_after_write s + 1,
       icbpt := blks_read,
       ocbpt := cdiv (blks_read * ibs s) (obs s)\<rparr>"

definition cp_read_pt :: "world \<Rightarrow> state \<Rightarrow> int \<times> state" where
  "cp_read_pt w s =
     (case pt_read w 0 (icbpt s) s of (res, blks_read, s1) \<Rightarrow>
        if res \<noteq> 0 \<and> 0 = blks_read then (res, s1)
        else
          (let s2 = (if res \<noteq> 0 then s1\<lparr>err_to_report := res\<rparr> else s1);
               s3 = (if blks_read < icbpt s2 then pt_short blks_read s2 else s2)
           in (0, s3\<lparr>in_full := in_full s3 + icbpt s3\<rparr>)))"

text \<open>
  The fields \<^verbatim>\<open>last_tape_read_len\<close>, \<^verbatim>\<open>read_tape_numbytes\<close> and \<^verbatim>\<open>consec_same_len_reads\<close>
  only feed the summary printed by \<^verbatim>\<open>print_tape_summary\<close> and are left out.
  \<open>tape_short\<close> is the block \<^verbatim>\<open>if (res < num)\<close> of \<^verbatim>\<open>cp_read_tape\<close>.
\<close>

definition tape_short :: "int \<Rightarrow> state \<Rightarrow> state" where
  "tape_short res s =
     (let a = s\<lparr>icbpt := cdiv res (ibs s)\<rparr>;
          b = (if cmod res (ibs a) > 0
               then a\<lparr>icbpt := icbpt a + 1, in_partial := in_partial a + 1,
                      in_full := in_full a - 1\<rparr>
               else a)
      in b\<lparr>ocbpt := cdiv res (obs b),
           leave_after_write := leave_after_write b + 1,
           leave_reason := REASON_TAPE_SHORT_READ,
           partial_write_bytes := cmod res (obs b)\<rparr>)"

definition cp_read_tape :: "world \<Rightarrow> state \<Rightarrow> int \<times> state" where
  "cp_read_tape w s =
     (let num = icbpt s * ibs s in
      case read_if w 0 num s of (res, err, s1) \<Rightarrow>
        if res < 0 then
          (if err = EIO \<or> err = EREMOTEIO then (SG_LIB_CAT_MEDIUM_HARD, s1)
           else (SG_LIB_CAT_OTHER, s1))
        else
          (let s2 = (if res < num then tape_short res s1 else s1)
           in (0, s2\<lparr>if_filepos := if_filepos s2 + res, bytes_read := res,
                     in_full := in_full s2 + icbpt s2\<rparr>)))"

text \<open>
  The gathering loop of \<^verbatim>\<open>cp_read_fifo\<close>: \<open>Inl\<close> is a \<^verbatim>\<open>return\<close> from inside the loop,
  \<open>Inr (k, s)\<close> the value of \<^verbatim>\<open>k\<close> and the state with which the loop is left;
  \<open>fifo_eof\<close> is the block \<^verbatim>\<open>else if (0 == res)\<close> in front of its \<^verbatim>\<open>break\<close>.
\<close>

definition fifo_eof :: "int \<Rightarrow> state \<Rightarrow> state" where
  "fifo_eof k s =
     (let a = s\<lparr>icbpt := cdiv k (ibs s)\<rparr>;
          b = (if cmod k (ibs a) > 0
               then a\<lparr>icbpt := icbpt a + 1, in_partial := in_partial a + 1,
                      in_full := in_full a - 1\<rparr>
               else a)
      in b\<lparr>ocbpt := cdiv k (obs b),
           leave_after_write := leave_after_write b + 1,
           leave_reason := 0,
           partial_write_bytes := cmod k (obs b)\<rparr>)"

function fifo_loop :: "world \<Rightarrow> int \<Rightarrow> int \<Rightarrow> state \<Rightarrow> (int \<times> state) + (int \<times> state)" where
  "fifo_loop w numbytes k s =
     (if k < numbytes then
        (case read_if w k (numbytes - k) s of (res, err, s1) \<Rightarrow>
           if res < 0 then Inl (SG_LIB_CAT_OTHER, s1)
           else if 0 = res then Inr (k, fifo_eof k s1)
           else fifo_loop w numbytes (k + res) s1)
      else Inr (k, s))"
  by pat_completeness auto
termination
  by (relation "measure (\<lambda>(w, numbytes, k, s). nat (numbytes - k))") auto

definition cp_read_fifo :: "world \<Rightarrow> state \<Rightarrow> int \<times> state" where
  "cp_read_fifo w s =
     (let offset = skip s * ibs s;
          numbytes = icbpt s * ibs s;
          s1 = (if offset \<noteq> if_filepos s then s\<lparr>if_filepos := offset\<rparr> else s)
      in case fifo_loop w numbytes 0 s1 of
           Inl r \<Rightarrow> r
         | Inr (k, s2) \<Rightarrow>
             (0, s2\<lparr>if_filepos := if_filepos s2 + k, bytes_read := k,
                    in_full := in_full s2 + icbpt s2\<rparr>))"

subsection \<open>Writing\<close>

text \<open>
  The \<^verbatim>\<open>do ... while\<close> loop shared by \<^verbatim>\<open>cp_write_of2\<close> and \<^verbatim>\<open>cp_write_block_reg\<close>: a
  write to a fifo is repeated while it makes progress. The result is the last \<^verbatim>\<open>res\<close>,
  \<^verbatim>\<open>errno\<close> and \<^verbatim>\<open>off\<close>.
\<close>

function write_loop ::
  "world \<Rightarrow> (int \<Rightarrow> event) \<Rightarrow> bool \<Rightarrow> int \<Rightarrow> int \<Rightarrow> state \<Rightarrow> int \<times> int \<times> int \<times> state" where
  "write_loop w ev fifo numbytes off s =
     (case sys_retry w (ev (numbytes - off)) s of (r, s1) \<Rightarrow>
        (let res = rw_res r (numbytes - off) in
         if fifo \<and> res > 0 then
           (if off + res < numbytes then write_loop w ev fifo numbytes (off + res) s1
            else (res, sr_errno r, off + res, s1))
         else (res, sr_errno r, off, s1)))"
  by pat_completeness auto
termination
  by (relation "measure (\<lambda>(w, ev, fifo, numbytes, off, s). nat (numbytes - off))") auto

definition cp_write_of2 :: "world \<Rightarrow> state \<Rightarrow> int \<times> state" where
  "cp_write_of2 w s =
     (let numbytes = ocbpt s * obs s + partial_write_bytes s in
      case write_loop w Ev_write_of2 (FT_FIFO \<in> out2_type s) numbytes 0 s of
        (res0, err, off, s1) \<Rightarrow>
          (let res = (if off \<ge> numbytes then numbytes else res0) in
           if res < 0 then (- 1, s1) else (0, s1\<lparr>bytes_of2 := res\<rparr>)))"

definition cp_read_of_pt :: "world \<Rightarrow> state \<Rightarrow> int \<times> state" where
  "cp_read_of_pt w s =
     (case pt_read w 1 (ocbpt s) s of (res, blks_read, s1) \<Rightarrow>
        if res \<noteq> 0 then (res, s1)
        else if blks_read \<noteq> ocbpt s1 then (1, s1)
        else (0, s1))"

text \<open>\<^verbatim>\<open>lseek(op->outfd, offset, SEEK_SET)\<close> when the offset differs from \<^verbatim>\<open>csp->of_filepos\<close>.\<close>

definition seek_of :: "world \<Rightarrow> int \<Rightarrow> state \<Rightarrow> int \<times> state" where
  "seek_of w offset s =
     (if offset \<noteq> of_filepos s then
        (case sys_call w (Ev_lseek_of offset) s of (r, s1) \<Rightarrow>
           if sr_res r < 0 then (SG_LIB_FILE_ERROR, s1)
           else (0, s1\<lparr>of_filepos := offset\<rparr>))
      else (0, s))"

definition cp_read_of_block_reg :: "world \<Rightarrow> state \<Rightarrow> int \<times> state" where
  "cp_read_of_block_reg w s =
     (let offset = seek s * obs s;
          numbytes0 = ocbpt s * obs s
      in case seek_of w offset s of (sk, s1) \<Rightarrow>
        if sk \<noteq> 0 then (sk, s1)
        else
          (let numbytes = (if partial_write_bytes s1 > 0
                           then numbytes0 + partial_write_bytes s1 else numbytes0)
           in case sys_retry w (Ev_read_of numbytes) s1 of (r, s2) \<Rightarrow>
             (let res = rw_res r numbytes;
                  s3 = s2\<lparr>wrk2 := buf_put (wrk2 s2) 0 (rd_data r numbytes)\<rparr>
              in if res < 0 then (- 1, s3)
                 else if res = numbytes
                 then (0, s3\<lparr>of_filepos := of_filepos s3 + numbytes\<rparr>)
                 else (1, s3))))"

text \<open>
  The buffer a write function is handed: the work buffer at an offset, or the zeros
  buffer (\<^verbatim>\<open>cp_sparse_cleanup\<close>). Padding a partial block clears the bytes after it.
\<close>

datatype buf_id = B_wrk int | B_zeros

definition pad_zero :: "buf_id \<Rightarrow> int \<Rightarrow> int \<Rightarrow> state \<Rightarrow> state" where
  "pad_zero b numbytes res s =
     (if res > numbytes then
        (case b of
           B_wrk pos \<Rightarrow> s\<lparr>wrk := memset0 (wrk s) (pos + numbytes) (res - numbytes)\<rparr>
         | B_zeros \<Rightarrow>
             s\<lparr>zeros_buff := map_option (\<lambda>z. memset0 z numbytes (res - numbytes))
                               (zeros_buff s)\<rparr>)
      else s)"

definition cp_write_pt :: "world \<Rightarrow> int \<Rightarrow> int \<Rightarrow> buf_id \<Rightarrow> state \<Rightarrow> int \<times> state" where
  "cp_write_pt w seek_delta blks0 b s =
     (let aseek = seek s + seek_delta in
      if o_nowrite s \<noteq> 0 then (0, s)
      else
        (case (if partial_write_bytes s > 0 \<and> o_pad s \<noteq> 0 then
                 (let numbytes = blks0 * obs s + partial_write_bytes s;
                      s1 = s\<lparr>ocbpt := ocbpt s + 1\<rparr>;
                      blks = blks0 + 1
                  in (blks, pad_zero b numbytes (blks * obs s1) s1))
               else (blks0, s)) of
           (blks, s2) \<Rightarrow>
             (case pt_write w blks aseek s2 of (res, s3) \<Rightarrow>
                if 0 \<noteq> res then (res, s3)
                else (0, s3\<lparr>out_full := out_full s3 + blks\<rparr>))))"

text \<open>
  The end of \<^verbatim>\<open>cp_write_tape\<close> and of \<^verbatim>\<open>cp_write_block_reg\<close>, the same code in both: what
  is returned and counted for the result \<^verbatim>\<open>res\<close> of writing \<^verbatim>\<open>numbytes\<close> bytes, \<^verbatim>\<open>blks\<close>
  blocks of \<open>obs'\<close> bytes.
\<close>

definition wr_result :: "int \<Rightarrow> int \<Rightarrow> int \<Rightarrow> int \<Rightarrow> int \<Rightarrow> state \<Rightarrow> int \<times> state" where
  "wr_result res err numbytes blks obs' s =
     (if res < 0 then
        (if err = EIO \<or> err = EREMOTEIO then (SG_LIB_CAT_MEDIUM_HARD, s)
         else (SG_LIB_CAT_OTHER, s))
      else if res < numbytes then
        (let s1 = s\<lparr>of_filepos := of_filepos s + res, bytes_of := res,
                     out_full := out_full s + cdiv res obs'\<rparr>
         in if cmod res obs' > 0
            then (- 1, s1\<lparr>out_partial := out_partial s1 + 1, out_full := out_full s1 + 1\<rparr>)
            else (- 1, s1))
      else
        (0, s\<lparr>of_filepos := of_filepos s + numbytes, bytes_of := numbytes,
               out_full := out_full s + blks\<rparr>))"

text \<open>
  The block \<^verbatim>\<open>if (csp->partial_write_bytes > 0)\<close> of \<^verbatim>\<open>cp_write_tape\<close>: the number of blocks
  and of bytes to write.
\<close>

definition tape_partial :: "state \<Rightarrow> int \<times> int \<times> state" where
  "tape_partial s =
     (let blks0 = ocbpt s;
          numbytes0 = blks0 * obs s
      in if partial_write_bytes s > 0 then
           (let numbytes1 = numbytes0 + partial_write_bytes s in
            if o_nopad s \<noteq> 0
            then (blks0, numbytes1, s\<lparr>out_partial := out_partial s + 1\<rparr>)
            else
              (let s1 = s\<lparr>ocbpt := ocbpt s + 1\<rparr>;
                   blks = blks0 + 1;
                   res = blks * obs s1
               in (blks, res, pad_zero (B_wrk 0) numbytes1 res s1)))
         else (blks0, numbytes0, s))"

text \<open>
  The write of \<^verbatim>\<open>cp_write_tape\<close>: it is reissued once (label \<^verbatim>\<open>ew_retry\<close>) when it fails
  with \<^verbatim>\<open>ENOSPC\<close> and \<^verbatim>\<open>ignoreew\<close> is set.
\<close>

definition tape_write :: "world \<Rightarrow> int \<Rightarrow> state \<Rightarrow> sysret \<times> state" where
  "tape_write w numbytes s =
     (case sys_retry w (Ev_write_of numbytes) s of (r1, s1) \<Rightarrow>
        if o_ignoreew s1 \<noteq> 0 \<and> - 1 = rw_res r1 numbytes \<and> ENOSPC = sr_errno r1
        then sys_retry w (Ev_write_of numbytes) s1
        else (r1, s1))"

definition cp_write_tape :: "world \<Rightarrow> state \<Rightarrow> int \<times> state" where
  "cp_write_tape w s =
     (if o_nowrite s \<noteq> 0 then (0, s)
      else
        (case tape_partial s of (blks, numbytes, s1) \<Rightarrow>
           (case tape_write w numbytes s1 of (r, s2) \<Rightarrow>
              wr_result (rw_res r numbytes) (sr_errno r) numbytes blks (obs s2) s2)))"

text \<open>
  The block \<^verbatim>\<open>if (csp->partial_write_bytes > 0)\<close> of \<^verbatim>\<open>cp_write_block_reg\<close>: the number of
  blocks and of bytes to write.
\<close>

definition block_reg_partial :: "buf_id \<Rightarrow> int \<Rightarrow> state \<Rightarrow> int \<times> int \<times> state" where
  "block_reg_partial b blks0 s =
     (let numbytes0 = blks0 * obs_pi s;
          obs' = obs_pi s
      in if partial_write_bytes s > 0 then
           (if o_pad s \<noteq> 0 then
              (let numbytes1 = numbytes0 + partial_write_bytes s;
                   s1 = s\<lparr>ocbpt := ocbpt s + 1\<rparr>;
                   blks = blks0 + 1;
                   res = blks * obs'
               in (blks, res, pad_zero b numbytes1 res s1))
            else if FT_BLOCK \<in> out_type s then (blks0, numbytes0, s)
            else (blks0, numbytes0 + partial_write_bytes s,
                  s\<lparr>out_partial := out_partial s + 1\<rparr>))
         else (blks0, numbytes0, s))"

definition cp_write_block_reg ::
  "world \<Rightarrow> int \<Rightarrow> int \<Rightarrow> buf_id \<Rightarrow> state \<Rightarrow> int \<times> state" where
  "cp_write_block_reg w seek_delta blks0 b s =
     (let aseek = seek s + seek_delta;
          obs' = obs_pi s
      in if o_nowrite s \<noteq> 0 then (0, s)
      else
        (let offset = aseek * obs' in
         case block_reg_partial b blks0 s of (blks, numbytes, s1) \<Rightarrow>
           (case (if REASON_TAPE_SHORT_READ = leave_reason s1 then (0, s1)
                  else seek_of w offset s1) of
              (sk, s2) \<Rightarrow>
                if sk \<noteq> 0 then (sk, s2)
                else
                  (case write_loop w Ev_write_of (FT_FIFO \<in> out_type s2) numbytes 0 s2 of
                     (res0, err, off, s3) \<Rightarrow>
                       wr_result (if off \<ge> numbytes then numbytes else res0) err
                         numbytes blks obs' s3))))"

text \<open>The zeros buffer; the code never reads it while it is \<^verbatim>\<open>NULL\<close>.\<close>

definition zeros :: "state \<Rightarrow> byte list" where
  "zeros s = (case zeros_buff s of None \<Rightarrow> [] | Some z \<Rightarrow> z)"

definition cp_sparse_cleanup :: "world \<Rightarrow> state \<Rightarrow> state" where
  "cp_sparse_cleanup w s =
     (let offset = seek s * obs s in
      if offset > of_filepos s then
        (if 0 = o_strunc s \<and> o_sparse s > 1 then s
         else
           (case sys_call w Ev_fstat_of s of (a_st, s1) \<Rightarrow>
              if sr_res a_st < 0 then s1
              else if offset = sr_size a_st then s1
              else if offset < sr_size a_st then s1
              else if o_strunc s1 \<noteq> 0 then
                (case sys_call w (Ev_ftruncate_of offset) s1 of (r, s2) \<Rightarrow> s2)
              else if 1 = o_sparse s1 then
                (case cp_write_block_reg w (- 1) 1 B_zeros s1 of (res, s2) \<Rightarrow>
                   if res < 0 then s2 else s2\<lparr>out_sparse := out_sparse s2 - 1\<rparr>)
              else s1))
      else s)"

subsection \<open>Finer grain comparison\<close>

text \<open>The three-way write of \<^verbatim>\<open>cp_finer_comp_wr\<close>, from \<^verbatim>\<open>b1p + pos\<close>.\<close>

definition fcw_write :: "world \<Rightarrow> int \<Rightarrow> int \<Rightarrow> int \<Rightarrow> state \<Rightarrow> int \<times> state" where
  "fcw_write w seek_delta blks pos s =
     (if FT_DEV_NULL \<in> out_type s then (0, s)
      else if FT_PT \<in> out_type s then cp_write_pt w seek_delta blks (B_wrk pos) s
      else cp_write_block_reg w seek_delta blks (B_wrk pos) s)"

text \<open>The locals of the comparison loop.\<close>

record fcw_t =
  need_wr :: int
  wr_len :: int
  wr_k :: int
  need_tr :: int
  tr_len :: int
  tr_k :: int

text \<open>The trim of a run of skipped blocks; errors are counted and passed over.\<close>

definition fcw_trim :: "world \<Rightarrow> fcw_t \<Rightarrow> state \<Rightarrow> state" where
  "fcw_trim w l s =
     (case pt_write_same16 w (cdiv (tr_len l) (obs s)) (seek s + cdiv (tr_k l) (obs s)) s of
        (res, s1) \<Rightarrow> if res \<noteq> 0 then s1\<lparr>trim_errs := trim_errs s1 + 1\<rparr> else s1)"

text \<open>
  One pass through the body of the loop; \<open>cmp_zeros\<close> tells whether \<^verbatim>\<open>b2p\<close> is the zeros
  buffer or the second work buffer.
\<close>

definition fcw_step ::
  "world \<Rightarrow> bool \<Rightarrow> int \<Rightarrow> int \<Rightarrow> bool \<Rightarrow> int \<Rightarrow> fcw_t \<Rightarrow> state
     \<Rightarrow> (int \<times> state) + (fcw_t \<times> state)" where
  "fcw_step w cmp_zeros numbytes chunk trim_check k l s =
     (let n = (if k + chunk < numbytes then chunk else numbytes - k);
          b2 = (if cmp_zeros then zeros s else wrk2 s)
      in if memcmp0 (drop (nat k) (wrk s)) (drop (nat k) b2) n then
           (case (if need_wr l \<noteq> 0 then
                    (case fcw_write w (cdiv (wr_k l) (obs s)) (cdiv (wr_len l) (obs s))
                            (wr_k l) s of
                       (res, s1) \<Rightarrow> (res, l\<lparr>need_wr := 0\<rparr>, s1))
                  else (0, l, s)) of
              (res, l1, s1) \<Rightarrow>
                if res \<noteq> 0 then Inl (res, s1)
                else
                  (let l2 = (if need_tr l1 \<noteq> 0 then l1\<lparr>tr_len := tr_len l1 + n\<rparr>
                             else if trim_check then l1\<lparr>need_tr := 1, tr_len := n, tr_k := k\<rparr>
                             else l1)
                   in Inr (l2, s1\<lparr>out_sparse := out_sparse s1 + cdiv n (obs s1)\<rparr>)))
         else
           (let l1 = (if need_wr l \<noteq> 0 then l\<lparr>wr_len := wr_len l + n\<rparr>
                      else l\<lparr>need_wr := 1, wr_len := n, wr_k := k\<rparr>)
            in if need_tr l1 \<noteq> 0 then Inr (l1\<lparr>need_tr := 0\<rparr>, fcw_trim w l1 s)
               else Inr (l1, s)))"

text \<open>The code after the loop.\<close>

definition fcw_finish :: "world \<Rightarrow> fcw_t \<Rightarrow> state \<Rightarrow> int \<times> state" where
  "fcw_finish w l s =
     (case (if need_wr l \<noteq> 0
            then fcw_write w (cdiv (wr_k l) (obs s)) (cdiv (wr_len l) (obs s)) (wr_k l) s
            else (0, s)) of
        (res, s1) \<Rightarrow>
          if res \<noteq> 0 then (res, s1)
          else if need_tr l \<noteq> 0 then (0, fcw_trim w l s1)
          else (0, s1))"

text \<open>
  The loop \<^verbatim>\<open>for (k = 0; k < numbytes; k += chunk)\<close>. With \<^verbatim>\<open>chunk <= 0\<close> the C loop does
  not advance and never ends: the model answers \<open>None\<close>.
\<close>

function fcw_loop ::
  "world \<Rightarrow> bool \<Rightarrow> int \<Rightarrow> int \<Rightarrow> bool \<Rightarrow> int \<Rightarrow> fcw_t \<Rightarrow> state \<Rightarrow> (int \<times> state) option" where
  "fcw_loop w cmp_zeros numbytes chunk trim_check k l s =
     (if k < numbytes then
        (if chunk \<le> 0 then None
         else
           (case fcw_step w cmp_zeros numbytes chunk trim_check k l s of
              Inl r \<Rightarrow> Some r
            | Inr (l1, s1) \<Rightarrow> fcw_loop w cmp_zeros numbytes chunk trim_check (k + chunk) l1 s1))
      else Some (fcw_finish w l s))"
  by pat_completeness auto
termination
  by (relation "measure (\<lambda>(w, cmp_zeros, numbytes, chunk, trim_check, k, l, s).
        nat (numbytes - k))") auto

definition cp_finer_comp_wr :: "world \<Rightarrow> bool \<Rightarrow> state \<Rightarrow> (int \<times> state) option" where
  "cp_finer_comp_wr w cmp_zeros s =
     (let oblks = ocbpt s in
      if obpc s \<ge> oblks then
        (case fcw_write w 0 oblks 0 s of (res, s1) \<Rightarrow>
           if res \<noteq> 0 then Some (res, s1) else Some (0, s1))
      else
        (let numbytes0 = oblks * obs s;
             numbytes = (if FT_REG \<in> out_type s \<and> partial_write_bytes s > 0
                         then numbytes0 + partial_write_bytes s else numbytes0);
             chunk = obpc s * obs s;
             trim_check = (o_sparse s \<noteq> 0 \<and> o_wsame16 s \<noteq> 0 \<and> FT_PT \<in> out_type s)
         in fcw_loop w cmp_zeros numbytes chunk trim_check 0
              \<lparr>need_wr = 0, wr_len = 0, wr_k = 0, need_tr = 0, tr_len = 0, tr_k = 0\<rparr> s))"

subsection \<open>The copy loop\<close>

definition cp_construct_pt_zero_buff :: "world \<Rightarrow> int \<Rightarrow> state \<Rightarrow> int \<times> state" where
  "cp_construct_pt_zero_buff w obpt s =
     (case (if FT_PT \<in> in_type s \<and> \<not> if_ptvp s then
              (case sys_call w Ev_alloc s of (r, s1) \<Rightarrow>
                 if sr_res r < 0 then (- 1, s1) else (0, s1\<lparr>if_ptvp := True\<rparr>))
            else (0, s)) of
        (r1, s1) \<Rightarrow>
          if r1 \<noteq> 0 then (r1, s1)
          else
            (case (if FT_PT \<in> out_type s1 \<and> \<not> of_ptvp s1 then
                     (case sys_call w Ev_alloc s1 of (r, s2) \<Rightarrow>
                        if sr_res r < 0 then (- 1, s2) else (0, s2\<lparr>of_ptvp := True\<rparr>))
                   else (0, s1)) of
               (r2, s2) \<Rightarrow>
                 if r2 \<noteq> 0 then (r2, s2)
                 else if o_sparse s2 \<noteq> 0 \<and> zeros_buff s2 = None then
                   (case sys_call w Ev_alloc s2 of (r, s3) \<Rightarrow>
                      if sr_res r < 0 then (- 1, s3)
                      else (0, s3\<lparr>zeros_buff := Some (replicate (nat (obpt * obs s3)) 0)\<rparr>))
                 else (0, s2)))"

text \<open>What one pass through the body of the main loop ends with.\<close>

datatype loop_result =
    is_Break: Break (br_ret: int) (lr_state: state)
  | is_Continue: Continue (lr_state: state)
  | Hang

text \<open>The head of the body: the per-chunk counts are planned.\<close>

definition chunk_plan :: "int \<Rightarrow> int \<Rightarrow> bool \<Rightarrow> state \<Rightarrow> state" where
  "chunk_plan ibpt obpt continual_read s =
     (let s1 = s\<lparr>bytes_read := 0, bytes_of := 0, bytes_of2 := 0\<rparr> in
      if dd_count s1 \<ge> ibpt \<or> continual_read then s1\<lparr>icbpt := ibpt, ocbpt := obpt\<rparr>
      else
        (let s2 = s1\<lparr>icbpt := dd_count s1\<rparr>;
             n = dd_count s2 * ibs s2;
             s3 = s2\<lparr>ocbpt := cdiv n (obs s2)\<rparr>
         in if cmod n (obs s3) \<noteq> 0
            then s3\<lparr>ocbpt := ocbpt s3 + 1, wrk := memset0 (wrk s3) 0 (ibs s3 * ibpt)\<rparr>
            else s3))"

text \<open>The reading section: dispatch on the input's file type.\<close>

definition chunk_read :: "world \<Rightarrow> state \<Rightarrow> int \<times> state" where
  "chunk_read w s =
     (if FT_PT \<in> in_type s then cp_read_pt w s
      else if FT_FIFO \<in> in_type s then cp_read_fifo w s
      else if FT_TAPE \<in> in_type s then cp_read_tape w s
      else cp_read_block_reg w s)"

text \<open>
  The end of the body, from the label \<^verbatim>\<open>bypass_write\<close>: counts and positions advance, and
  a pending \<^verbatim>\<open>leave_after_write\<close> leaves the loop unless its reason is a tape short read.
\<close>

definition chunk_done :: "state \<Rightarrow> loop_result" where
  "chunk_done s =
     (let s1 = (if dd_count s > 0 then s\<lparr>dd_count := dd_count s - icbpt s\<rparr> else s);
          s2 = s1\<lparr>skip := skip s1 + icbpt s1\<rparr>;
          s3 = s2\<lparr>seek := seek s2 + ocbpt s2\<rparr>
      in if leave_after_write s3 \<noteq> 0 then
           (if REASON_TAPE_SHORT_READ = leave_reason s3
            then Continue (s3\<lparr>partial_write_bytes := 0, leave_after_write := 0\<rparr>)
            else Break (leave_reason s3) s3)
         else Continue s3)"

text \<open>The writing section, from the second \<^verbatim>\<open>process_signals\<close> to \<^verbatim>\<open>bypass_write\<close>.\<close>

definition chunk_write :: "world \<Rightarrow> bool \<Rightarrow> bool \<Rightarrow> state \<Rightarrow> loop_result" where
  "chunk_write w sparing_skip sparse_skip s =
     (if sparing_skip \<or> sparse_skip then
        (let s1 = s\<lparr>out_sparse := out_sparse s + ocbpt s\<rparr> in
         chunk_done (if partial_write_bytes s1 > 0
                     then s1\<lparr>out_sparse_partial := out_sparse_partial s1 + 1\<rparr> else s1))
      else if FT_PT \<in> out_type s then
        (case cp_write_pt w 0 (ocbpt s) (B_wrk 0) s of (ret, s1) \<Rightarrow>
           if ret \<noteq> 0 then Break ret s1 else chunk_done s1)
      else if FT_DEV_NULL \<in> out_type s then chunk_done s
      else if FT_TAPE \<in> out_type s then
        (case cp_write_tape w s of (ret, s1) \<Rightarrow>
           if ret \<noteq> 0 then Break ret s1 else chunk_done s1)
      else
        (case cp_write_block_reg w 0 (ocbpt s) (B_wrk 0) s of (ret, s1) \<Rightarrow>
           if ret \<noteq> 0 then Break ret s1 else chunk_done s1))"

text \<open>The call of \<^verbatim>\<open>cp_finer_comp_wr\<close> followed by \<^verbatim>\<open>goto bypass_write\<close>.\<close>

definition chunk_finer :: "world \<Rightarrow> bool \<Rightarrow> state \<Rightarrow> loop_result" where
  "chunk_finer w cmp_zeros s =
     (case cp_finer_comp_wr w cmp_zeros s of
        None \<Rightarrow> Hang
      | Some (ret, s1) \<Rightarrow> if ret \<noteq> 0 then Break ret s1 else chunk_done s1)"

text \<open>Write sparing: the output is read and compared with the chunk.\<close>

definition chunk_sparing :: "world \<Rightarrow> bool \<Rightarrow> state \<Rightarrow> loop_result" where
  "chunk_sparing w sparse_skip s =
     (if o_sparing s \<noteq> 0 \<and> \<not> sparse_skip then
        (case (if FT_PT \<in> out_type s then cp_read_of_pt w s else cp_read_of_block_reg w s) of
           (res, s1) \<Rightarrow>
             if 0 = res then
               (let n = ocbpt s1 * obs s1 + partial_write_bytes s1 in
                if memcmp0 (wrk s1) (wrk2 s1) n then chunk_write w True sparse_skip s1
                else if obpc s1 \<noteq> 0 then chunk_finer w False s1
                else chunk_write w False sparse_skip s1)
             else Break res s1)
      else chunk_write w False sparse_skip s)"

text \<open>Sparse writing: the chunk is compared with the zeros buffer.\<close>

definition chunk_sparse :: "world \<Rightarrow> state \<Rightarrow> loop_result" where
  "chunk_sparse w s =
     (if o_sparse s \<noteq> 0 then
        (let n = ocbpt s * obs s + partial_write_bytes s in
         if memcmp0 (wrk s) (zeros s) n then
           (if o_wsame16 s \<noteq> 0 \<and> FT_PT \<in> out_type s then
              (case pt_write_same16 w (ocbpt s) (seek s) s of (res, s1) \<Rightarrow>
                 chunk_sparing w True
                   (if res \<noteq> 0 then s1\<lparr>trim_errs := trim_errs s1 + 1\<rparr> else s1))
            else chunk_sparing w True s)
         else if obpc s \<noteq> 0 then chunk_finer w True s
         else chunk_sparing w False s)
      else chunk_sparing w False s)"

text \<open>The body of the loop \<^verbatim>\<open>while ((op->dd_count > 0) || continual_read)\<close>.\<close>

definition do_copy_iter :: "world \<Rightarrow> int \<Rightarrow> int \<Rightarrow> bool \<Rightarrow> state \<Rightarrow> loop_result" where
  "do_copy_iter w ibpt obpt continual_read s =
     (case chunk_read w (chunk_plan ibpt obpt continual_read s) of (ret, s1) \<Rightarrow>
        if ret \<noteq> 0 then Break ret s1
        else if 0 = icbpt s1 then Break ret s1
        else if out2fd s1 \<ge> 0 then
          (case cp_write_of2 w s1 of (ret2, s2) \<Rightarrow>
             if ret2 \<noteq> 0 then Break ret2 s2 else chunk_sparse w s2)
        else chunk_sparse w s1)"

text \<open>
  The loop itself, with a bound on the number of passes: \<open>None\<close> when the bound is used
  up before the loop ends, or when a pass does not end.
\<close>

fun do_copy_loop ::
  "nat \<Rightarrow> world \<Rightarrow> int \<Rightarrow> int \<Rightarrow> bool \<Rightarrow> state \<Rightarrow> (int \<times> state) option" where
  "do_copy_loop 0 w ibpt obpt continual_read s =
     (if dd_count s > 0 \<or> continual_read then None else Some (0, s))"
| "do_copy_loop (Suc n) w ibpt obpt continual_read s =
     (if dd_count s > 0 \<or> continual_read then
        (case do_copy_iter w ibpt obpt continual_read s of
           Break ret s1 \<Rightarrow> Some (ret, s1)
         | Continue s1 \<Rightarrow> do_copy_loop n w ibpt obpt continual_read s1
         | Hang \<Rightarrow> None)
      else Some (0, s))"

text \<open>The code of \<^verbatim>\<open>do_copy\<close> after the loop, up to the label \<^verbatim>\<open>copy_end\<close>.\<close>

definition do_copy_finish :: "world \<Rightarrow> state \<Rightarrow> state" where
  "do_copy_finish w s =
     (let s1 = (if FT_REG \<in> out_type s \<and> 0 = o_nowrite s \<and> o_sparse s \<noteq> 0
                then cp_sparse_cleanup w s else s)
      in if out_type s1 \<inter> {FT_PT, FT_DEV_NULL, FT_FIFO, FT_CHAR, FT_TAPE} \<noteq> {} then s1
         else if o_fdatasync s1 \<noteq> 0 then snd (sys_call w Ev_fsync_of s1)
         else if o_fsync s1 \<noteq> 0 then snd (sys_call w Ev_fsync_of s1)
         else s1)"

text \<open>\<^verbatim>\<open>memset(csp, 0, sizeof(struct cp_state_t))\<close>.\<close>

definition csp_clear :: "state \<Rightarrow> state" where
  "csp_clear s =
     s\<lparr>icbpt := 0, ocbpt := 0, bytes_read := 0, bytes_of := 0, bytes_of2 := 0,
       leave_after_write := 0, leave_reason := 0, if_filepos := 0, of_filepos := 0,
       partial_write_bytes := 0\<rparr>"

definition do_copy :: "nat \<Rightarrow> world \<Rightarrow> state \<Rightarrow> (int \<times> state) option" where
  "do_copy fuel w s =
     (let continual_read = (reading_fifo s \<noteq> 0 \<and> dd_count s < 0) in
      if dd_count s \<le> 0 \<and> reading_fifo s = 0 then Some (0, s)
      else
        (let s0 = csp_clear s;
             ibpt = bpt_i s0;
             obpt = cdiv (ibs s0 * bpt_i s0) (obs s0)
         in case cp_construct_pt_zero_buff w obpt s0 of (ret, s1) \<Rightarrow>
           if ret \<noteq> 0 then Some (ret, s1\<lparr>if_ptvp := False, of_ptvp := False\<rparr>)
           else
             (case do_copy_loop fuel w ibpt obpt continual_read s1 of
                None \<Rightarrow> None
              | Some (ret1, s2) \<Rightarrow>
                  Some (ret1, (do_copy_finish w s2)\<lparr>if_ptvp := False, of_ptvp := False\<rparr>))))"

subsection \<open>The planner\<close>


















subsection \<open>main\<close>










text \<open>
  The options as \<^verbatim>\<open>main\<close> sets them before \<^verbatim>\<open>process_cl\<close>: all zero but for the fields
  named.
\<close>

definition ops_init :: state where
  "ops_init =
     \<lparr>ibs = 0, obs = 0, ibs_pi = 0, obs_pi = 0, ibs_hold = 0, bpt_i = 0, bpt_given = 0,
      obpc = 0, skip = 0, seek = 0, dd_count = - 1, in_type = {FT_OTHER},
      out_type = {FT_OTHER}, out2_type = {}, out2fd = - 1, reading_fifo = 0, coe_limit = 0,
      coe_count = 0, in_full = 0, in_partial = 0, out_full = 0, out_partial = 0,
      out_sparse = 0, out_sparse_partial = 0, unrecovered_errs = 0,
      highest_unrecovered = - 1, lowest_unrecovered = 0, trim_errs = 0,
      interrupted_retries = 0, err_to_report = 0, zeros_buff = None, if_ptvp = False,
      of_ptvp = False, inf = [], outf = [], out2f = [], errblk_fp = False,
      errblk_txt = [],
      i_coe = 0, i_sparse = 0, i_self = 0, i_wsame16 = 0, i_errblk = 0, i_pt = 0,
      i_flock = 0, i_norcap = 0, i_force = 0, o_pt = 0, o_flock = 0, o_norcap = 0,
      o_force = 0, o_prealloc = 0, o_ssync = 0, rdprotect = 0, wrprotect = 0,
      rdprot_typ = 0, wrprot_typ = 0, rdp_i_exp = 0, wrp_i_exp = 0,
      o_sparse = 0, o_sparing = 0, o_wsame16 = 0, o_strunc = 0, o_nowrite = 0, o_pad = 0,
      o_nopad = 0, o_ignoreew = 0, o_resume = 0, o_append = 0, o_trunc = 0, o_self = 0,
      o_fdatasync = 0, o_fsync = 0, icbpt = 0, ocbpt = 0, bytes_read = 0, bytes_of = 0,
      bytes_of2 = 0, leave_after_write = 0, leave_reason = 0, if_filepos = 0,
      of_filepos = 0, partial_write_bytes = 0, wrk = [], wrk2 = [], io = 0, trace = []\<rparr>"

subsection \<open>The error-block journal\<close>

definition newline :: char where
  "newline = CHR 0x0A"

text \<open>\<^verbatim>\<open>%x\<close> of \<^verbatim>\<open>fprintf\<close>: lower-case hexadecimal without leading zeros.\<close>

definition hex_digit :: "nat \<Rightarrow> char" where
  "hex_digit n = ''0123456789abcdef'' ! n"

function hex :: "nat \<Rightarrow> string" where
  "hex n = (if n < 16 then [hex_digit n] else hex (n div 16) @ [hex_digit (n mod 16)])"
  by pat_completeness auto
termination
  by (relation "measure id") auto



definition put_errblk :: "64 word \<Rightarrow> state \<Rightarrow> state" where
  "put_errblk lba s =
     (if errblk_fp s
      then s\<lparr>errblk_txt := errblk_txt s @ ''0x'' @ hex (unat lba) @ [newline]\<rparr>
      else s)"

definition put_range_errblk :: "64 word \<Rightarrow> int \<Rightarrow> state \<Rightarrow> state" where
  "put_range_errblk lba num s =
     (if errblk_fp s then
        (if 1 = num then put_errblk lba s
         else if num > 1 then
           s\<lparr>errblk_txt := errblk_txt s @ ''0x'' @ hex (unat lba) @ ''-0x''
                @ hex (unat (lba + word_of_int (num - 1))) @ [newline]\<rparr>
         else s)
      else s)"


subsection \<open>main, continued\<close>


subsection \<open>Auxiliary predicates\<close>

text \<open>
  Used to state properties and lemmas. A call that writes to OFILE (a write, a
  pass-through WRITE or WRITE SAME); from one state to another, nothing was written to
  OFILE and no full output record was counted; from one state to another, the file types,
  the block sizes, the flags that choose the path through the loop and the request to leave
  it are the same. About the end of a pass through the loop:
  the read phase has asked
  to leave because of a tape short read, or for another reason; and a pass ends by going on with the partial
  bytes and the request cleared, or by leaving the loop with the non-zero result of a
  failed call, or not at all.
\<close>

definition of_write :: "event \<Rightarrow> bool" where
  "of_write e =
     (case e of Ev_write_of n \<Rightarrow> True | Ev_pt_write b l \<Rightarrow> True
      | Ev_pt_write_same16 b l \<Rightarrow> True | _ \<Rightarrow> False)"

definition no_output :: "state \<Rightarrow> state \<Rightarrow> bool" where
  "no_output s s' \<longleftrightarrow>
     out_full s' = out_full s \<and> out_type s' = out_type s
     \<and> filter of_write (trace s') = filter of_write (trace s)"





subsection \<open>Example inputs\<close>




text \<open>An answer with the given return value and \<^verbatim>\<open>errno\<close>, and an environment in which
  every call succeeds in full: a read or write of \<open>n\<close> bytes returns \<open>n\<close>.\<close>

definition answer :: "int \<Rightarrow> int \<Rightarrow> sysret" where
  "answer r e = \<lparr>sr_res = r, sr_errno = e, sr_data = [], sr_eintr = 0, sr_blks = 0,
     sr_size = 0, sr_ft = {FT_REG}\<rparr>"

definition requested :: "event \<Rightarrow> int" where
  "requested e =
     (case e of Ev_read_if n \<Rightarrow> n | Ev_write_of n \<Rightarrow> n | Ev_write_of2 n \<Rightarrow> n
      | Ev_read_of n \<Rightarrow> n | _ \<Rightarrow> 0)"

definition ex_world :: world where
  "ex_world n e = answer (requested e) 0"

text \<open>
  A copy of 512-byte blocks from a regular file to the null device; an input on which every
  read fails with \<^verbatim>\<open>EIO\<close>; and an input whose second block cannot be read: the first
  read returns one block, the next one fails, and every read after that succeeds in full.
\<close>

definition ex_copy :: state where
  "ex_copy = ops_init\<lparr>ibs := 512, obs := 512, ibs_pi := 512, obs_pi := 512,
     in_type := {FT_REG}, out_type := {FT_DEV_NULL}\<rparr>"

definition eio_world :: world where
  "eio_world n e = (case e of Ev_read_if x \<Rightarrow> answer (- 1) EIO | _ \<Rightarrow> answer 0 0)"

definition bad_block_world :: world where
  "bad_block_world n e =
     (if n = 0 then answer 512 0 else if n = 1 then answer (- 1) EIO
      else answer (requested e) 0)"

text \<open>
  A tape whose blocks are 300 bytes long: every read returns 300 bytes, and every other
  call succeeds in full. And a tape at its end: every read returns 0 bytes.
\<close>

definition tape_world :: world where
  "tape_world n e = (case e of Ev_read_if x \<Rightarrow> answer 300 0 | _ \<Rightarrow> answer (requested e) 0)"

definition empty_world :: world where
  "empty_world n e = (case e of Ev_read_if x \<Rightarrow> answer 0 0 | _ \<Rightarrow> answer (requested e) 0)"

definition ex_tape :: state where
  "ex_tape = ex_copy\<lparr>in_type := {FT_TAPE}, reading_fifo := 1, bpt_i := 1, dd_count := 5\<rparr>"

text \<open>
  A chunk of two 4-byte blocks of zeros on its way to a regular file with \<^verbatim>\<open>oflag=sparse\<close>,
  and the same chunk on its way to a pass-through device with \<^verbatim>\<open>oflag=wsame16\<close>.
\<close>

definition ex_sparse :: state where
  "ex_sparse = ops_init\<lparr>ibs := 4, obs := 4, ibs_pi := 4, obs_pi := 4, bpt_i := 2,
     dd_count := 2, in_type := {FT_REG}, out_type := {FT_REG}, o_sparse := 1,
     icbpt := 2, ocbpt := 2, wrk := [0, 0, 0, 0, 0, 0, 0, 0],
     zeros_buff := Some [0, 0, 0, 0, 0, 0, 0, 0]\<rparr>"

definition ex_trim :: state where
  "ex_trim = ex_sparse\<lparr>out_type := {FT_PT}, o_sparse := 3, o_wsame16 := 1, seek := 6\<rparr>"

section \<open>Properties\<close>

text \<open>The equations of the loops are unfolded by hand.\<close>

declare coe_loop.simps [simp del] fifo_loop.simps [simp del] write_loop.simps [simp del]
  fcw_loop.simps [simp del] hex.simps [simp del]

subsection \<open>C arithmetic\<close>


lemma cdiv_zero [simp]: "cdiv 0 b = 0" "cmod 0 b = 0"
  by (simp_all add: cdiv_def cmod_def)

lemma cdiv_numeral [simp]:
  "cdiv (numeral a) (numeral b) = numeral a div numeral b"
  "cmod (numeral a) (numeral b) = numeral a mod numeral b"
  "cdiv 1 (numeral b) = 1 div numeral b"
  "cmod 1 (numeral b) = 1 mod numeral b"
  "cdiv (numeral a) 1 = numeral a"
  "cmod (numeral a) 1 = 0"
  "cdiv 1 1 = 1"
  "cmod 1 1 = 0"
  by (simp_all add: cdiv_def cmod_def)




subsection \<open>The planner rejects block sizes that do not fit\<close>






subsection \<open>Continue on error: the limit on consecutive unrecovered reads\<close>

lemma do_copy_loop_numeral:
  "do_copy_loop (numeral k) w ibpt obpt c s =
     (if dd_count s > 0 \<or> c then
        (case do_copy_iter w ibpt obpt c s of
           Break ret s1 \<Rightarrow> Some (ret, s1)
         | Continue s1 \<Rightarrow> do_copy_loop (pred_numeral k) w ibpt obpt c s1
         | Hang \<Rightarrow> None)
      else Some (0, s))"
  by (simp add: numeral_eq_Suc)

lemmas engine_defs = do_copy_def csp_clear_def cp_construct_pt_zero_buff_def do_copy_iter_def
  chunk_plan_def chunk_read_def chunk_sparse_def chunk_sparing_def chunk_write_def chunk_done_def
  chunk_finer_def do_copy_finish_def cp_read_block_reg_def cp_read_short_def
  coe_cp_read_block_reg_def coe_loop.simps coe_step_def coe_short_read_def coe_process_eio_def
  zero_coe_limit_count_def seek_if_def read_if_def sys_retry_def sys_call_def rw_res_def
  rd_data_def int32_def do_copy_loop_numeral cp_read_tape_def cp_read_fifo_def cp_read_pt_def tape_short_def fifo_eof_def pt_short_def
  fifo_loop.simps

lemmas example_defs = ex_copy_def ops_init_def answer_def requested_def eio_world_def
  bad_block_world_def ex_world_def tape_world_def empty_world_def ex_tape_def


















subsection \<open>Continue on error: what resets the count\<close>

text \<open>
  C3, the code at the failing input. \<^verbatim>\<open>coe_limit=5\<close>, two chunks of two blocks: the second
  block of the first chunk cannot be read and is replaced by zeros, which leaves
  \<^verbatim>\<open>coe_count\<close> at 1; the second chunk is then read in full by one successful read, and
  \<^verbatim>\<open>coe_count\<close> is still 1 at the end of the copy.
\<close>

theorem C3_bulk_read_keeps_coe_count:
  "coe_limit (ex_copy\<lparr>i_coe := 1, coe_limit := 5, dd_count := 4, bpt_i := 2\<rparr>) = 5
   \<and> map_option (\<lambda>x. (fst x, in_full (snd x), in_partial (snd x), coe_count (snd x)))
        (do_copy 5 bad_block_world
           (ex_copy\<lparr>i_coe := 1, coe_limit := 5, dd_count := 4, bpt_i := 2\<rparr>))
       = Some (0, 3, 1, 1)"
  by (simp add: engine_defs example_defs Let_def code_defs)

text \<open>
  The sibling paths do reset the count: a single block read in full, and the full blocks
  in front of a short bulk read.
\<close>

lemma coe_step_success_resets:
  assumes "\<not> sr_res (w (io s) (Ev_read_if ibs')) < ibs'" and "0 < ibs'"
    and "off = if_filepos s" and "0 < coe_limit s"
  shows "\<not> isl (coe_step w ibs' k ms pos off s)
     \<and> coe_count (projr (coe_step w ibs' k ms pos off s)) = 0"
  using assms
  by (simp add: coe_step_def seek_if_def read_if_def sys_retry_def sys_call_def rw_res_def
      zero_coe_limit_count_def Let_def)

subsection \<open>Tape: a short read does not end the copy\<close>











































lemma block_reg_partial_obs: "obs_pi (snd (snd (block_reg_partial b blks0 s))) = obs_pi s"
  by (simp add: block_reg_partial_def pad_zero_def Let_def split: buf_id.splits)






















subsection \<open>Sparse output: a chunk of zeros is not written\<close>

lemma chunk_done_state:
  "chunk_done s \<noteq> Hang"
  "out_sparse (lr_state (chunk_done s)) = out_sparse s"
  "out_sparse_partial (lr_state (chunk_done s)) = out_sparse_partial s"
  "out_full (lr_state (chunk_done s)) = out_full s"
  "out_partial (lr_state (chunk_done s)) = out_partial s"
  "trace (lr_state (chunk_done s)) = trace s"
  "out_type (lr_state (chunk_done s)) = out_type s"
  by (simp_all add: chunk_done_def Let_def)

text \<open>
  C4. With sparse output enabled, a chunk whose payload
  (\<^verbatim>\<open>ocbpt * obs + partial_write_bytes\<close> bytes) compares equal to the zeros buffer is not
  written to OFILE: the part of a pass through the loop that follows the copy to OFILE2
  ends, \<^verbatim>\<open>out_sparse\<close> grows by \<^verbatim>\<open>ocbpt\<close> and \<^verbatim>\<open>out_sparse_partial\<close> by one when
  \<^verbatim>\<open>partial_write_bytes > 0\<close>, the counters of records written stay as they were, and the
  only call made is a WRITE SAME(16) when \<^verbatim>\<open>wsame16\<close> is set and OFILE is a pass-through
  device.
\<close>

theorem C4_sparse_zero_chunk:
  assumes sp: "o_sparse s \<noteq> 0"
    and z: "memcmp0 (wrk s) (zeros s) (ocbpt s * obs s + partial_write_bytes s)"
  shows "chunk_sparse w s \<noteq> Hang
     \<and> out_sparse (lr_state (chunk_sparse w s)) = out_sparse s + ocbpt s
     \<and> out_sparse_partial (lr_state (chunk_sparse w s))
         = out_sparse_partial s + (if partial_write_bytes s > 0 then 1 else 0)
     \<and> out_full (lr_state (chunk_sparse w s)) = out_full s
     \<and> out_partial (lr_state (chunk_sparse w s)) = out_partial s
     \<and> trace (lr_state (chunk_sparse w s))
         = trace s @ (if o_wsame16 s \<noteq> 0 \<and> FT_PT \<in> out_type s
                      then [Ev_pt_write_same16 (ocbpt s) (seek s)] else [])"
proof (cases "o_wsame16 s \<noteq> 0 \<and> FT_PT \<in> out_type s")
  case True
  obtain res s1 where ws: "pt_write_same16 w (ocbpt s) (seek s) s = (res, s1)"
    by (cases "pt_write_same16 w (ocbpt s) (seek s) s")
  then have s1: "s1 = s\<lparr>io := Suc (io s), trace := trace s @ [Ev_pt_write_same16 (ocbpt s) (seek s)]\<rparr>"
    by (auto simp: pt_write_same16_def sys_call_def)
  show ?thesis using sp z True ws
    by (simp add: chunk_sparse_def chunk_sparing_def chunk_write_def Let_def chunk_done_state s1)
next
  case False
  then show ?thesis using sp z
    by (auto simp: chunk_sparse_def chunk_sparing_def chunk_write_def Let_def chunk_done_state)
qed

text \<open>The chunk of zeros of \<open>ex_sparse\<close> is skipped without a call; that of \<open>ex_trim\<close>
  is trimmed by one WRITE SAME(16) of two blocks at the seek position.\<close>

theorem C4_sparse_zero_chunk_witness:
  "chunk_sparse ex_world ex_sparse \<noteq> Hang
   \<and> out_sparse (lr_state (chunk_sparse ex_world ex_sparse)) = 2
   \<and> out_sparse_partial (lr_state (chunk_sparse ex_world ex_sparse)) = 0
   \<and> out_full (lr_state (chunk_sparse ex_world ex_sparse)) = 0
   \<and> out_partial (lr_state (chunk_sparse ex_world ex_sparse)) = 0
   \<and> trace (lr_state (chunk_sparse ex_world ex_sparse)) = []
   \<and> out_sparse (lr_state (chunk_sparse ex_world ex_trim)) = 2
   \<and> out_full (lr_state (chunk_sparse ex_world ex_trim)) = 0
   \<and> trace (lr_state (chunk_sparse ex_world ex_trim)) = [Ev_pt_write_same16 2 6]"
  using C4_sparse_zero_chunk [where w = ex_world and s = ex_sparse]
    C4_sparse_zero_chunk [where w = ex_world and s = ex_trim]
  by (simp add: ex_sparse_def ex_trim_def ops_init_def memcmp0_def zeros_def)

end
